theory Spec2Isabelle
  imports Complex_Main
begin

section \<open>Floating-point values and arrays\<close>

text \<open>
  A NumPy float is either a finite number, idealised here as a real (rounding is not
  modelled), or one of the non-finite values \<open>nan\<close>, \<open>inf\<close>, \<open>-inf\<close>. NumPy's
  division of an array by zero does not raise: it yields a non-finite value. All
  non-finite values are collapsed into \<open>None\<close>; once an operand of \<open>+\<close>, \<open>*\<close> or
  \<open>/\<close> is non-finite, so is the result.
\<close>

type_synonym fl = "real option"

definition fl_add :: "fl \<Rightarrow> fl \<Rightarrow> fl" where
  "fl_add a b = (case a of None \<Rightarrow> None | Some x \<Rightarrow> (case b of None \<Rightarrow> None | Some y \<Rightarrow> Some (x + y)))"

definition fl_mul :: "fl \<Rightarrow> fl \<Rightarrow> fl" where
  "fl_mul a b = (case a of None \<Rightarrow> None | Some x \<Rightarrow> (case b of None \<Rightarrow> None | Some y \<Rightarrow> Some (x * y)))"

definition fl_div :: "fl \<Rightarrow> fl \<Rightarrow> fl" where
  "fl_div a b = (case a of None \<Rightarrow> None | Some x \<Rightarrow>
     (case b of None \<Rightarrow> None | Some y \<Rightarrow> if y = 0 then None else Some (x / y)))"

text \<open>The sum of a one-dimensional array (\<open>np.sum\<close>, and each row of \<open>sum(axis=1)\<close>).\<close>

definition fl_sum :: "fl list \<Rightarrow> fl" where
  "fl_sum xs = foldr fl_add xs (Some 0)"

text \<open>The errors NumPy raises on an index out of bounds and on shapes that do not broadcast.\<close>

datatype error = IndexError | ValueError

section \<open>The fractional transition counts of \<open>from_data\<close>\<close>

text \<open>\<open>np.zeros((n_hidden_states, n_hidden_states))\<close>\<close>

definition zeros :: "nat \<Rightarrow> fl list list" where
  "zeros n = replicate n (replicate n (Some 0))"

text \<open>
  \<open>pobs /= pobs.sum(axis=1)[:, None]\<close>: every row is divided by its own sum.
\<close>

definition normalize_rows :: "fl list list \<Rightarrow> fl list list" where
  "normalize_rows pobs = map (\<lambda>r. map (\<lambda>x. fl_div x (fl_sum r)) r) pobs"

text \<open>\<open>pobs[t, :]\<close> for \<open>t \<ge> 0\<close>.\<close>

definition get_row :: "fl list list \<Rightarrow> nat \<Rightarrow> error + fl list" where
  "get_row pobs t = (if t < length pobs then Inr (pobs ! t) else Inl IndexError)"

text \<open>
  \<open>Nij += np.outer(u, v)\<close> for the square array \<open>Nij\<close>. The outer product has shape
  \<open>(len(u), len(v))\<close>; the in-place addition broadcasts it to the shape of \<open>Nij\<close>, which
  needs every axis to have the length of \<open>Nij\<close>'s or length 1, and raises otherwise.
\<close>

definition iadd_outer :: "fl list list \<Rightarrow> fl list \<Rightarrow> fl list \<Rightarrow> error + fl list list" where
  "iadd_outer Nij u v =
     (let n = length Nij in
      if (length u = n \<or> length u = 1) \<and> (length v = n \<or> length v = 1)
      then Inr (map (\<lambda>i. map (\<lambda>j.
              fl_add (Nij ! i ! j)
                (fl_mul (u ! (if length u = 1 then 0 else i)) (v ! (if length v = 1 then 0 else j))))
              [0..<n]) [0..<n])
      else Inl ValueError)"

text \<open>Python's \<open>range(k)\<close>: empty when \<open>k \<le> 0\<close>.\<close>

definition range_py :: "int \<Rightarrow> nat list" where
  "range_py k = map nat [0..k - 1]"

text \<open>
  The inner loop \<open>for t in range(T - 1): Nij += np.outer(pobs[t, :], pobs[t + 1, :])\<close>,
  over the list of the values of \<open>t\<close> still to come.
\<close>

fun count_pairs :: "fl list list \<Rightarrow> nat list \<Rightarrow> fl list list \<Rightarrow> error + fl list list" where
  "count_pairs pobs [] Nij = Inr Nij"
| "count_pairs pobs (t # ts) Nij =
     (case get_row pobs t of
        Inl e \<Rightarrow> Inl e
      | Inr u \<Rightarrow>
          (case get_row pobs (t + 1) of
             Inl e \<Rightarrow> Inl e
           | Inr v \<Rightarrow>
               (case iadd_outer Nij u v of
                  Inl e \<Rightarrow> Inl e
                | Inr Nij' \<Rightarrow> count_pairs pobs ts Nij')))"

text \<open>
  The body of \<open>for o_t in dtrajs\<close>. The output model is not part of this file:
  \<open>to_state_probability_trajectory\<close> is a parameter, a function from a trajectory to
  its array of output probabilities (one row per frame, one column per hidden state).
\<close>

definition accumulate_trajectory ::
  "('o list \<Rightarrow> fl list list) \<Rightarrow> fl list list \<Rightarrow> 'o list \<Rightarrow> error + fl list list" where
  "accumulate_trajectory to_state_probability_trajectory Nij o_t =
     (let T = int (length o_t);
          pobs = normalize_rows (to_state_probability_trajectory o_t)
      in count_pairs pobs (range_py (T - 1)) Nij)"

fun accumulate_trajectories ::
  "('o list \<Rightarrow> fl list list) \<Rightarrow> fl list list \<Rightarrow> 'o list list \<Rightarrow> error + fl list list" where
  "accumulate_trajectories f Nij [] = Inr Nij"
| "accumulate_trajectories f Nij (o_t # dtrajs) =
     (case accumulate_trajectory f Nij o_t of
        Inl e \<Rightarrow> Inl e
      | Inr Nij' \<Rightarrow> accumulate_trajectories f Nij' dtrajs)"

text \<open>
  The count matrix \<open>Nij\<close> that \<open>from_data\<close> hands to the transition matrix estimator
  (lines 48 to 58 of the function).
\<close>

definition from_data_Nij ::
  "nat \<Rightarrow> ('o list \<Rightarrow> fl list list) \<Rightarrow> 'o list list \<Rightarrow> error + fl list list" where
  "from_data_Nij n_hidden_states to_state_probability_trajectory dtrajs =
     accumulate_trajectories to_state_probability_trajectory (zeros n_hidden_states) dtrajs"

text \<open>
  The counts as the sum the loops are meant to compute: over the trajectories, over
  \<open>t\<close> from \<open>0\<close> to \<open>T - 2\<close>, of the entry \<open>(i, j)\<close> of the outer product of the normalised
  rows \<open>t\<close> and \<open>t + 1\<close> of that trajectory.
\<close>

definition pair_sum ::
  "('o list \<Rightarrow> fl list list) \<Rightarrow> 'o list list \<Rightarrow> nat \<Rightarrow> nat \<Rightarrow> fl" where
  "pair_sum to_state_probability_trajectory dtrajs i j =
     fl_sum (concat (map (\<lambda>o_t.
        map (\<lambda>t. fl_mul (normalize_rows (to_state_probability_trajectory o_t) ! nat t ! i)
                         (normalize_rows (to_state_probability_trajectory o_t) ! nat (t + 1) ! j))
          [0..int (length o_t) - 2]) dtrajs))"

text \<open>A square array of side \<open>n\<close>.\<close>

definition square :: "nat \<Rightarrow> 'a list list \<Rightarrow> bool" where
  "square n N \<longleftrightarrow> length N = n \<and> (\<forall>i<n. length (N ! i) = n)"

text \<open>
  What \<open>from_data\<close> relies on from the output model it builds with \<open>n_hidden_states\<close>
  states: the array of output probabilities of a trajectory has one row per frame and
  one column per hidden state.
\<close>

definition output_shape :: "nat \<Rightarrow> ('o list \<Rightarrow> fl list list) \<Rightarrow> 'o list list \<Rightarrow> bool" where
  "output_shape n f dtrajs \<longleftrightarrow>
     (\<forall>o_t\<in>set dtrajs. length (f o_t) = length o_t \<and> (\<forall>r\<in>set (f o_t). length r = n))"

text \<open>
  What the output probabilities of a frame are: finite, non-negative numbers, one per
  hidden state, whose total is not zero (so the division of the row by its sum is
  defined).
\<close>

definition output_probabilities :: "('o list \<Rightarrow> fl list list) \<Rightarrow> 'o list list \<Rightarrow> bool" where
  "output_probabilities f dtrajs \<longleftrightarrow>
     (\<forall>o_t\<in>set dtrajs. \<forall>r\<in>set (f o_t).
        (\<forall>x\<in>set r. \<exists>v. x = Some v \<and> 0 \<le> v) \<and> fl_sum r \<noteq> Some 0)"

text \<open>
  The loop invariant of the count matrix: a square array of finite, non-negative
  entries whose total is \<open>k\<close>.
\<close>

definition counts :: "nat \<Rightarrow> fl list list \<Rightarrow> real \<Rightarrow> bool" where
  "counts n N k \<longleftrightarrow>
     square n N \<and> (\<forall>i<n. \<forall>j<n. \<exists>v. N ! i ! j = Some v \<and> 0 \<le> v) \<and>
     (\<Sum>i<n. \<Sum>j<n. the (N ! i ! j)) = k"

text \<open>A normalised row: \<open>n\<close> finite, non-negative entries that sum to one.\<close>

definition distribution :: "nat \<Rightarrow> fl list \<Rightarrow> bool" where
  "distribution n r \<longleftrightarrow>
     length r = n \<and> (\<forall>i<n. \<exists>v. r ! i = Some v \<and> 0 \<le> v) \<and> (\<Sum>i<n. the (r ! i)) = 1"

section \<open>The covariance accumulator\<close>

text \<open>
  The estimator of the covariances (\<open>TICA.covariance_estimator\<close>, its \<open>partial_fit\<close> and
  \<open>fetch_model\<close>) is not among the source files; only the test that calls it is. The
  definitions of this section describe it as the specification does. Finite floats are
  idealised as reals.
\<close>

text \<open>One pair of an instantaneous and a time-lagged feature vector.\<close>

type_synonym pair = "real list \<times> real list"

text \<open>
  Modelled from the spec: the accumulator of the covariance estimator, which is missing
  from the sources. It holds the running sums the specification names: the count of
  pairs, count times mean of the instantaneous and of the lagged vectors, and the
  second-moment sums of the instantaneous covariance and of the time-lagged
  cross-covariance.
\<close>

record accumulator =
  n_pairs :: nat
  sum_0 :: "real list"
  sum_t :: "real list"
  moment_00 :: "real list list"
  moment_0t :: "real list list"

text \<open>
  Modelled from the spec: the error of the missing accumulator for a submission that
  yields no pair.
\<close>

datatype accumulator_error = InsufficientDataError

text \<open>
  Modelled from the spec: the missing accumulator as created, empty, for \<open>F\<close> features.
\<close>

definition empty_accumulator :: "nat \<Rightarrow> accumulator" where
  "empty_accumulator F =
     \<lparr>n_pairs = 0, sum_0 = replicate F 0, sum_t = replicate F 0,
      moment_00 = replicate F (replicate F 0), moment_0t = replicate F (replicate F 0)\<rparr>"

text \<open>
  Modelled from the spec: the sums the missing accumulator computes from the pairs of
  one submission, for \<open>F\<close> features: the count, the column sums, and the products
  \<open>X\<^sup>T X\<close> and \<open>X\<^sup>T Y\<close> of the instantaneous rows \<open>X\<close> and the lagged rows \<open>Y\<close>.
\<close>

definition chunk_moments :: "nat \<Rightarrow> pair list \<Rightarrow> accumulator" where
  "chunk_moments F chunk =
     \<lparr>n_pairs = length chunk,
      sum_0 = map (\<lambda>i. \<Sum>p\<leftarrow>chunk. fst p ! i) [0..<F],
      sum_t = map (\<lambda>i. \<Sum>p\<leftarrow>chunk. snd p ! i) [0..<F],
      moment_00 = map (\<lambda>i. map (\<lambda>j. \<Sum>p\<leftarrow>chunk. fst p ! i * fst p ! j) [0..<F]) [0..<F],
      moment_0t = map (\<lambda>i. map (\<lambda>j. \<Sum>p\<leftarrow>chunk. fst p ! i * snd p ! j) [0..<F]) [0..<F]\<rparr>"

text \<open>
  Modelled from the spec: the combination rule of the missing accumulator when
  statistics of several submissions are merged, the component-wise sums of the count,
  of count times mean and of the second-moment accumulators.
\<close>

definition merge :: "accumulator \<Rightarrow> accumulator \<Rightarrow> accumulator" where
  "merge a b =
     \<lparr>n_pairs = n_pairs a + n_pairs b,
      sum_0 = map2 (+) (sum_0 a) (sum_0 b),
      sum_t = map2 (+) (sum_t a) (sum_t b),
      moment_00 = map2 (map2 (+)) (moment_00 a) (moment_00 b),
      moment_0t = map2 (map2 (+)) (moment_0t a) (moment_0t b)\<rparr>"

text \<open>
  Modelled from the spec: one submission call of the missing accumulator
  (\<open>partial_fit\<close>) with a pair of equal-length sequences, given as the list of their
  pairs. A submission without a pair fails; otherwise its sums are merged into the
  running sums.
\<close>

definition partial_fit :: "nat \<Rightarrow> accumulator \<Rightarrow> pair list \<Rightarrow> accumulator_error + accumulator" where
  "partial_fit F acc chunk =
     (if chunk = [] then Inl InsufficientDataError else Inr (merge acc (chunk_moments F chunk)))"

text \<open>
  Modelled from the spec: repeated submission to the missing accumulator, one call
  after the other; the first failure ends it, as the exception would.
\<close>

fun partial_fit_all :: "nat \<Rightarrow> accumulator \<Rightarrow> pair list list \<Rightarrow> accumulator_error + accumulator" where
  "partial_fit_all F acc [] = Inr acc"
| "partial_fit_all F acc (chunk # chunks) =
     (case partial_fit F acc chunk of
        Inl e \<Rightarrow> Inl e
      | Inr acc' \<Rightarrow> partial_fit_all F acc' chunks)"

text \<open>
  The pairs of one trajectory at a lag time, as the tests build them:
  \<open>(z[:-lag], z[lag:])\<close>. Python's slice \<open>z[:-0]\<close> is empty. Both frames of a pair are
  frames of this trajectory.
\<close>

definition lag_pairs :: "nat \<Rightarrow> real list list \<Rightarrow> pair list" where
  "lag_pairs lag traj =
     zip (if lag = 0 then [] else take (length traj - lag) traj) (drop lag traj)"

text \<open>
  The submissions the claim is about: at least one call, every call with at least one
  pair, every vector with \<open>F\<close> features (the ingestion guarantees the shape).
\<close>

definition well_shaped :: "nat \<Rightarrow> pair list list \<Rightarrow> bool" where
  "well_shaped F chunks \<longleftrightarrow>
     chunks \<noteq> [] \<and>
     (\<forall>c\<in>set chunks. c \<noteq> [] \<and> (\<forall>p\<in>set c. length (fst p) = F \<and> length (snd p) = F))"

text \<open>
  Modelled from the spec: the covariance statistics the missing estimator hands out,
  the means and the covariances of the specification's data model.
\<close>

record statistics =
  mean_0 :: "real list"
  mean_t :: "real list"
  cov_00 :: "real list list"
  cov_0t :: "real list list"

text \<open>
  Modelled from the spec: the statistics of the missing accumulator's running sums, the
  means as sum over count and the covariances as second moment over count minus the
  product of the means. They are not defined before the first pair.
\<close>

definition fetch_statistics :: "accumulator \<Rightarrow> statistics option" where
  "fetch_statistics acc =
     (if n_pairs acc = 0 then None
      else
        (let n = real (n_pairs acc);
             m0 = map (\<lambda>s. s / n) (sum_0 acc);
             mt = map (\<lambda>s. s / n) (sum_t acc)
         in Some \<lparr>mean_0 = m0, mean_t = mt,
               cov_00 = map2 (\<lambda>a row. map2 (\<lambda>b s. s / n - a * b) m0 row) m0 (moment_00 acc),
               cov_0t = map2 (\<lambda>a row. map2 (\<lambda>b s. s / n - a * b) mt row) m0 (moment_0t acc)\<rparr>))"

section \<open>Arithmetic of the floating-point values\<close>

lemma fl_add_assoc: "fl_add (fl_add a b) c = fl_add a (fl_add b c)"
  by (simp add: fl_add_def split: option.splits)

lemma fl_add_zero_left: "fl_add (Some 0) a = a"
  by (simp add: fl_add_def split: option.splits)

lemma fl_add_zero_right: "fl_add a (Some 0) = a"
  by (simp add: fl_add_def split: option.splits)

lemma fl_sum_Nil: "fl_sum [] = Some 0"
  by (simp add: fl_sum_def)

lemma fl_sum_Cons: "fl_sum (x # xs) = fl_add x (fl_sum xs)"
  by (simp add: fl_sum_def)

lemma fl_sum_append: "fl_sum (xs @ ys) = fl_add (fl_sum xs) (fl_sum ys)"
  by (induction xs) (simp_all add: fl_sum_Nil fl_sum_Cons fl_add_zero_left fl_add_assoc)

section \<open>The loops of \<open>from_data\<close> compute the sum over pairs within each trajectory\<close>

lemma square_zeros: "square n (zeros n)"
  by (simp add: square_def zeros_def)

lemma zeros_entry: "i < n \<Longrightarrow> j < n \<Longrightarrow> zeros n ! i ! j = Some 0"
  by (simp add: zeros_def)

lemma iadd_outer_entries:
  assumes "length Nij = n" "length u = n" "length v = n"
  shows "\<exists>N'. iadd_outer Nij u v = Inr N' \<and> square n N' \<and>
           (\<forall>i<n. \<forall>j<n. N' ! i ! j = fl_add (Nij ! i ! j) (fl_mul (u ! i) (v ! j)))"
  using assms by (auto simp add: iadd_outer_def square_def Let_def)

lemma count_pairs_entries:
  assumes "square n Nij" "\<forall>t\<in>set ts. t + 1 < length pobs" "\<forall>r\<in>set pobs. length r = n"
  shows "\<exists>N'. count_pairs pobs ts Nij = Inr N' \<and> square n N' \<and>
           (\<forall>i<n. \<forall>j<n. N' ! i ! j =
              fl_add (Nij ! i ! j) (fl_sum (map (\<lambda>t. fl_mul (pobs ! t ! i) (pobs ! (t + 1) ! j)) ts)))"
  using assms
proof (induction ts arbitrary: Nij)
  case Nil
  then show ?case
    by (simp add: fl_sum_Nil fl_add_zero_right)
next
  case (Cons t ts)
  from Cons.prems have t: "t < length pobs" "t + 1 < length pobs"
    by simp_all
  with Cons.prems have len: "length (pobs ! t) = n" "length (pobs ! (t + 1)) = n"
    by (simp_all del: One_nat_def)
  from Cons.prems have "length Nij = n"
    by (simp add: square_def)
  from iadd_outer_entries [OF this len] obtain N1 where
    N1: "iadd_outer Nij (pobs ! t) (pobs ! (t + 1)) = Inr N1" "square n N1"
      "\<forall>i<n. \<forall>j<n. N1 ! i ! j = fl_add (Nij ! i ! j) (fl_mul (pobs ! t ! i) (pobs ! (t + 1) ! j))"
    by blast
  from Cons.prems have "\<forall>t\<in>set ts. t + 1 < length pobs"
    by simp
  from Cons.IH [OF N1(2) this Cons.prems(3)] obtain N2 where
    N2: "count_pairs pobs ts N1 = Inr N2" "square n N2"
      "\<forall>i<n. \<forall>j<n. N2 ! i ! j =
         fl_add (N1 ! i ! j) (fl_sum (map (\<lambda>t. fl_mul (pobs ! t ! i) (pobs ! (t + 1) ! j)) ts))"
    by blast
  have "count_pairs pobs (t # ts) Nij = Inr N2"
    using t N1(1) N2(1) by (simp add: get_row_def del: One_nat_def)
  moreover have "\<forall>i<n. \<forall>j<n. N2 ! i ! j =
      fl_add (Nij ! i ! j) (fl_sum (map (\<lambda>t. fl_mul (pobs ! t ! i) (pobs ! (t + 1) ! j)) (t # ts)))"
    using N1(3) N2(3) by (simp add: fl_sum_Cons fl_add_assoc del: One_nat_def)
  ultimately show ?case
    using N2(2) by blast
qed

lemma range_py_upto: "range_py (int T - 1) = map nat [0..int T - 2]"
  by (simp add: range_py_def)

lemma range_py_bound: "t \<in> set (range_py (int T - 1)) \<Longrightarrow> t + 1 < T"
  by (auto simp add: range_py_def)

lemma accumulate_trajectory_entries:
  assumes "square n Nij" "length (f o_t) = length o_t" "\<forall>r\<in>set (f o_t). length r = n"
  shows "\<exists>N'. accumulate_trajectory f Nij o_t = Inr N' \<and> square n N' \<and>
           (\<forall>i<n. \<forall>j<n. N' ! i ! j =
              fl_add (Nij ! i ! j) (fl_sum (map (\<lambda>t. fl_mul (normalize_rows (f o_t) ! nat t ! i)
                 (normalize_rows (f o_t) ! nat (t + 1) ! j)) [0..int (length o_t) - 2])))"
proof -
  let ?p = "normalize_rows (f o_t)"
  have rows: "\<forall>r\<in>set ?p. length r = n"
    using assms(3) by (auto simp add: normalize_rows_def)
  have "length ?p = length o_t"
    using assms(2) by (simp add: normalize_rows_def)
  then have bound: "\<forall>t\<in>set (range_py (int (length o_t) - 1)). t + 1 < length ?p"
    using range_py_bound by auto
  have eq: "map (\<lambda>t. fl_mul (?p ! t ! i) (?p ! (t + 1) ! j)) (range_py (int (length o_t) - 1))
      = map (\<lambda>t. fl_mul (?p ! nat t ! i) (?p ! nat (t + 1) ! j)) [0..int (length o_t) - 2]" for i j
    by (simp add: range_py_upto nat_add_distrib)
  from count_pairs_entries [OF assms(1) bound rows] show ?thesis
    by (simp add: accumulate_trajectory_def Let_def eq del: One_nat_def)
qed

lemma accumulate_trajectories_entries:
  assumes "square n Nij" "output_shape n f dtrajs"
  shows "\<exists>N'. accumulate_trajectories f Nij dtrajs = Inr N' \<and> square n N' \<and>
           (\<forall>i<n. \<forall>j<n. N' ! i ! j = fl_add (Nij ! i ! j) (pair_sum f dtrajs i j))"
  using assms
proof (induction dtrajs arbitrary: Nij)
  case Nil
  then show ?case
    by (simp add: pair_sum_def fl_sum_Nil fl_add_zero_right)
next
  case (Cons o_t dtrajs)
  from Cons.prems have "length (f o_t) = length o_t" "\<forall>r\<in>set (f o_t). length r = n"
    by (simp_all add: output_shape_def)
  from accumulate_trajectory_entries [where f = f and o_t = o_t, OF Cons.prems(1) this] obtain N1 where
    N1: "accumulate_trajectory f Nij o_t = Inr N1" "square n N1"
      "\<forall>i<n. \<forall>j<n. N1 ! i ! j =
         fl_add (Nij ! i ! j) (fl_sum (map (\<lambda>t. fl_mul (normalize_rows (f o_t) ! nat t ! i)
            (normalize_rows (f o_t) ! nat (t + 1) ! j)) [0..int (length o_t) - 2]))"
    by blast
  from Cons.prems have "output_shape n f dtrajs"
    by (simp add: output_shape_def)
  from Cons.IH [OF N1(2) this] obtain N2 where
    N2: "accumulate_trajectories f N1 dtrajs = Inr N2" "square n N2"
      "\<forall>i<n. \<forall>j<n. N2 ! i ! j = fl_add (N1 ! i ! j) (pair_sum f dtrajs i j)"
    by blast
  have "accumulate_trajectories f Nij (o_t # dtrajs) = Inr N2"
    using N1(1) N2(1) by simp
  moreover have "\<forall>i<n. \<forall>j<n. N2 ! i ! j = fl_add (Nij ! i ! j) (pair_sum f (o_t # dtrajs) i j)"
    using N1(3) N2(3) by (simp add: pair_sum_def fl_sum_append fl_add_assoc)
  ultimately show ?case
    using N2(2) by blast
qed

lemma accumulate_trajectory_single: "accumulate_trajectory f Nij [x] = Inr Nij"
  by (simp add: accumulate_trajectory_def range_py_def)

lemma accumulate_trajectories_append:
  "accumulate_trajectories f Nij (xs @ ys) =
     (case accumulate_trajectories f Nij xs of
        Inl e \<Rightarrow> Inl e
      | Inr N' \<Rightarrow> accumulate_trajectories f N' ys)"
  by (induction xs arbitrary: Nij) (simp_all split: sum.splits)

text \<open>
  Claim C9. In \<open>from_data\<close> the fractional transition counts are accumulated within each
  trajectory only. When the output model returns, for every trajectory, one row per
  frame and \<open>n\<close> columns, the loops end without an error and entry \<open>(i, j)\<close> of \<open>Nij\<close>
  is the sum over the trajectories of the sum over \<open>t\<close> from \<open>0\<close> to \<open>T - 2\<close> of
  \<open>pobs[t, i] * pobs[t + 1, j]\<close>, the rows taken from the normalised array of that same
  trajectory: no pair \<open>(t, t + 1)\<close> spans two trajectories. A trajectory of length 1
  leaves the counts as they are and raises nothing, whatever the output model returns
  for it, so the counts with and without such a trajectory are the same.
\<close>

theorem from_data_counts_within_trajectories:
  assumes "output_shape n f dtrajs"
  shows "(\<exists>Nij. from_data_Nij n f dtrajs = Inr Nij \<and> square n Nij \<and>
            (\<forall>i<n. \<forall>j<n. Nij ! i ! j = pair_sum f dtrajs i j)) \<and>
         (\<forall>g N x. accumulate_trajectory g N [x] = Inr N) \<and>
         (\<forall>g m x ds ds'. from_data_Nij m g (ds @ [x] # ds') = from_data_Nij m g (ds @ ds'))"
proof (intro conjI allI)
  from accumulate_trajectories_entries [OF square_zeros assms]
  show "\<exists>Nij. from_data_Nij n f dtrajs = Inr Nij \<and> square n Nij \<and>
            (\<forall>i<n. \<forall>j<n. Nij ! i ! j = pair_sum f dtrajs i j)"
    by (simp add: from_data_Nij_def zeros_entry fl_add_zero_left)
next
  fix g :: "'b list \<Rightarrow> fl list list" and N x
  show "accumulate_trajectory g N [x] = Inr N"
    by (rule accumulate_trajectory_single)
next
  fix g :: "'c list \<Rightarrow> fl list list" and m x ds ds'
  show "from_data_Nij m g (ds @ [x] # ds') = from_data_Nij m g (ds @ ds')"
    by (simp add: from_data_Nij_def accumulate_trajectories_append accumulate_trajectory_single
        split: sum.splits)
qed

theorem from_data_counts_within_trajectories_witness:
  "output_shape 2 (map (\<lambda>x::real. [Some x, Some 1])) [[1, 3], [1]] \<and>
   from_data_Nij 2 (map (\<lambda>x::real. [Some x, Some 1])) [[1, 3], [1]] =
     Inr [[Some (3 / 8), Some (1 / 8)], [Some (3 / 8), Some (1 / 8)]] \<and>
   pair_sum (map (\<lambda>x::real. [Some x, Some 1])) [[1, 3], [1]] 0 0 = Some (3 / 8) \<and>
   pair_sum (map (\<lambda>x::real. [Some x, Some 1])) [[1, 3], [1]] 0 1 = Some (1 / 8) \<and>
   pair_sum (map (\<lambda>x::real. [Some x, Some 1])) [[1, 3], [1]] 1 0 = Some (3 / 8) \<and>
   pair_sum (map (\<lambda>x::real. [Some x, Some 1])) [[1, 3], [1]] 1 1 = Some (1 / 8) \<and>
   from_data_Nij 2 (map (\<lambda>x::real. [Some x, Some 1])) [[1, 3, 1]] =
     Inr [[Some (3 / 4), Some (1 / 2)], [Some (1 / 2), Some (1 / 4)]]"
proof -
  let ?f = "map (\<lambda>x::real. [Some x, Some 1])"
  let ?M = "[[Some (3 / 8), Some (1 / 8)], [Some (3 / 8), Some (1 / 8 :: real)]]"
  have shape: "output_shape 2 ?f [[1, 3], [1]]"
    by (simp add: output_shape_def)
  have two: "from_data_Nij 2 ?f [[1, 3], [1]] = Inr ?M"
    by (simp add: from_data_Nij_def accumulate_trajectory_def normalize_rows_def range_py_def
        zeros_def get_row_def iadd_outer_def fl_sum_def fl_add_def fl_mul_def fl_div_def
        upto.simps upt_conv_Cons)
  have one: "from_data_Nij 2 ?f [[1, 3, 1]] =
      Inr [[Some (3 / 4), Some (1 / 2)], [Some (1 / 2), Some (1 / 4)]]"
    by (simp add: from_data_Nij_def accumulate_trajectory_def normalize_rows_def range_py_def
        zeros_def get_row_def iadd_outer_def fl_sum_def fl_add_def fl_mul_def fl_div_def
        upto.simps upt_conv_Cons)
  from from_data_counts_within_trajectories [OF shape] obtain Nij where
    "from_data_Nij 2 ?f [[1, 3], [1]] = Inr Nij"
    "\<forall>i<2. \<forall>j<2. Nij ! i ! j = pair_sum ?f [[1, 3], [1]] i j"
    by blast
  with two have entries: "\<forall>i<2. \<forall>j<2. ?M ! i ! j = pair_sum ?f [[1, 3], [1]] i j"
    by simp
  have "pair_sum ?f [[1, 3], [1]] 0 0 = Some (3 / 8)" "pair_sum ?f [[1, 3], [1]] 0 1 = Some (1 / 8)"
    "pair_sum ?f [[1, 3], [1]] 1 0 = Some (3 / 8)" "pair_sum ?f [[1, 3], [1]] 1 1 = Some (1 / 8)"
    using entries [rule_format, of 0 0] entries [rule_format, of 0 1]
      entries [rule_format, of 1 0] entries [rule_format, of 1 1]
    by simp_all
  with shape two one show ?thesis
    by simp
qed

section \<open>The total of the counts is the number of pairs of consecutive frames\<close>

lemma fl_sum_Some:
  "\<forall>x\<in>set xs. \<exists>v. x = Some v \<Longrightarrow> fl_sum xs = Some (sum_list (map the xs))"
  by (induction xs) (auto simp add: fl_sum_Nil fl_sum_Cons fl_add_def)

lemma sum_list_divide: "sum_list (map (\<lambda>x. f x / c) xs) = sum_list (map f xs) / (c::real)"
  by (induction xs) (simp_all add: add_divide_distrib)

lemma normalize_row_distribution:
  assumes "\<forall>x\<in>set r. \<exists>v. x = Some v \<and> 0 \<le> v" "fl_sum r \<noteq> Some 0"
  shows "distribution (length r) (map (\<lambda>x. fl_div x (fl_sum r)) r)"
proof -
  let ?s = "sum_list (map the r)"
  have s: "fl_sum r = Some ?s"
    using assms(1) by (intro fl_sum_Some) blast
  with assms(2) have nz: "?s \<noteq> 0"
    by simp
  have "0 \<le> ?s"
    using assms(1) by (intro sum_list_nonneg) auto
  with nz have pos: "0 < ?s"
    by simp
  have entry: "fl_div x (fl_sum r) = Some (the x / ?s) \<and> 0 \<le> the x / ?s" if "x \<in> set r" for x
    using that assms(1) s nz pos by (auto simp add: fl_div_def)
  then have eq: "map (\<lambda>x. fl_div x (fl_sum r)) r = map (\<lambda>x. Some (the x / ?s)) r"
    by simp
  have "(\<Sum>i<length r. the (map (\<lambda>x. Some (the x / ?s)) r ! i)) = sum_list (map (\<lambda>x. the x / ?s) r)"
    by (simp add: sum_list_sum_nth atLeast0LessThan)
  also have "\<dots> = 1"
    using nz by (simp add: sum_list_divide)
  finally show ?thesis
    using entry by (simp add: distribution_def eq)
qed

lemma iadd_outer_counts:
  assumes "counts n N k" "distribution n u" "distribution n v"
  shows "\<exists>N'. iadd_outer N u v = Inr N' \<and> counts n N' (k + 1)"
proof -
  from assms have len: "length N = n" "length u = n" "length v = n"
    by (simp_all add: counts_def square_def distribution_def)
  from iadd_outer_entries [OF len] obtain N' where
    N': "iadd_outer N u v = Inr N'" "square n N'"
      "\<forall>i<n. \<forall>j<n. N' ! i ! j = fl_add (N ! i ! j) (fl_mul (u ! i) (v ! j))"
    by blast
  have entry: "N' ! i ! j = Some (the (N ! i ! j) + the (u ! i) * the (v ! j)) \<and>
      0 \<le> the (N ! i ! j) + the (u ! i) * the (v ! j)" if "i < n" "j < n" for i j
  proof -
    from assms that obtain a b c where "N ! i ! j = Some a" "0 \<le> a" "u ! i = Some b" "0 \<le> b"
      "v ! j = Some c" "0 \<le> c"
      unfolding counts_def distribution_def by blast
    with N'(3) that show ?thesis
      by (simp add: fl_add_def fl_mul_def)
  qed
  have "(\<Sum>i<n. \<Sum>j<n. the (N' ! i ! j)) =
      (\<Sum>i<n. \<Sum>j<n. the (N ! i ! j) + the (u ! i) * the (v ! j))"
    using entry by simp
  also have "\<dots> = (\<Sum>i<n. \<Sum>j<n. the (N ! i ! j)) + (\<Sum>i<n. the (u ! i)) * (\<Sum>j<n. the (v ! j))"
    by (simp add: sum.distrib sum_product)
  also have "\<dots> = k + 1"
    using assms by (simp add: counts_def distribution_def)
  finally have "counts n N' (k + 1)"
    using N'(2) entry by (simp add: counts_def)
  with N'(1) show ?thesis
    by blast
qed

lemma count_pairs_counts:
  assumes "counts n Nij k" "\<forall>t\<in>set ts. t + 1 < length pobs" "\<forall>r\<in>set pobs. distribution n r"
  shows "\<exists>N'. count_pairs pobs ts Nij = Inr N' \<and> counts n N' (k + real (length ts))"
  using assms
proof (induction ts arbitrary: Nij k)
  case Nil
  then show ?case
    by simp
next
  case (Cons t ts)
  from Cons.prems have t: "t < length pobs" "t + 1 < length pobs"
    by simp_all
  with Cons.prems(3) have "distribution n (pobs ! t)" "distribution n (pobs ! (t + 1))"
    by (simp_all del: One_nat_def)
  from iadd_outer_counts [OF Cons.prems(1) this] obtain N1 where
    N1: "iadd_outer Nij (pobs ! t) (pobs ! (t + 1)) = Inr N1" "counts n N1 (k + 1)"
    by blast
  from Cons.prems have "\<forall>t\<in>set ts. t + 1 < length pobs"
    by simp
  from Cons.IH [OF N1(2) this Cons.prems(3)] obtain N2 where
    N2: "count_pairs pobs ts N1 = Inr N2" "counts n N2 (k + 1 + real (length ts))"
    by blast
  have "count_pairs pobs (t # ts) Nij = Inr N2"
    using t N1(1) N2(1) by (simp add: get_row_def del: One_nat_def)
  moreover have "counts n N2 (k + real (length (t # ts)))"
    using N2(2) by (simp add: add.assoc)
  ultimately show ?case
    by blast
qed

lemma length_range_py: "length (range_py (int T - 1)) = nat (max 0 (int T - 1))"
  by (simp add: range_py_def)

lemma accumulate_trajectory_counts:
  assumes "counts n Nij k" "length (f o_t) = length o_t"
    "\<forall>r\<in>set (f o_t). length r = n \<and> (\<forall>x\<in>set r. \<exists>v. x = Some v \<and> 0 \<le> v) \<and> fl_sum r \<noteq> Some 0"
  shows "\<exists>N'. accumulate_trajectory f Nij o_t = Inr N' \<and>
           counts n N' (k + of_int (max 0 (int (length o_t) - 1)))"
proof -
  let ?p = "normalize_rows (f o_t)"
  have rows: "\<forall>r\<in>set ?p. distribution n r"
    using assms(3) normalize_row_distribution by (fastforce simp add: normalize_rows_def)
  have "length ?p = length o_t"
    using assms(2) by (simp add: normalize_rows_def)
  then have bound: "\<forall>t\<in>set (range_py (int (length o_t) - 1)). t + 1 < length ?p"
    using range_py_bound by auto
  have "real (length (range_py (int (length o_t) - 1))) = of_int (max 0 (int (length o_t) - 1))"
    by (simp add: length_range_py)
  with count_pairs_counts [OF assms(1) bound rows] show ?thesis
    by (simp add: accumulate_trajectory_def Let_def)
qed

lemma accumulate_trajectories_counts:
  assumes "counts n Nij k" "output_shape n f dtrajs" "output_probabilities f dtrajs"
  shows "\<exists>N'. accumulate_trajectories f Nij dtrajs = Inr N' \<and>
           counts n N' (k + of_int (\<Sum>o_t\<leftarrow>dtrajs. max 0 (int (length o_t) - 1)))"
  using assms
proof (induction dtrajs arbitrary: Nij k)
  case Nil
  then show ?case
    by simp
next
  case (Cons o_t dtrajs)
  from Cons.prems have "length (f o_t) = length o_t"
    "\<forall>r\<in>set (f o_t). length r = n \<and> (\<forall>x\<in>set r. \<exists>v. x = Some v \<and> 0 \<le> v) \<and> fl_sum r \<noteq> Some 0"
    by (simp_all add: output_shape_def output_probabilities_def)
  from accumulate_trajectory_counts [where f = f and o_t = o_t, OF Cons.prems(1) this] obtain N1 where
    N1: "accumulate_trajectory f Nij o_t = Inr N1"
      "counts n N1 (k + of_int (max 0 (int (length o_t) - 1)))"
    by blast
  from Cons.prems have "output_shape n f dtrajs" "output_probabilities f dtrajs"
    by (simp_all add: output_shape_def output_probabilities_def)
  from Cons.IH [OF N1(2) this] obtain N2 where
    N2: "accumulate_trajectories f N1 dtrajs = Inr N2"
      "counts n N2 (k + of_int (max 0 (int (length o_t) - 1)) +
         of_int (\<Sum>o_t\<leftarrow>dtrajs. max 0 (int (length o_t) - 1)))"
    by blast
  have "accumulate_trajectories f Nij (o_t # dtrajs) = Inr N2"
    using N1(1) N2(1) by simp
  moreover have "counts n N2 (k + of_int (\<Sum>o_t\<leftarrow>o_t # dtrajs. max 0 (int (length o_t) - 1)))"
    using N2(2) by (simp add: add.assoc)
  ultimately show ?case
    by blast
qed

lemma sum_list_map_concat:
  "sum_list (map f (concat xss)) = sum_list (map (\<lambda>xs. sum_list (map f xs)) xss)"
  for f :: "'a \<Rightarrow> real"
  by (induction xss) simp_all

lemma counts_zeros: "counts n (zeros n) 0"
  by (simp add: counts_def square_zeros zeros_entry)

lemma counts_total:
  assumes "counts n N k"
  shows "fl_sum (concat N) = Some k"
proof -
  from assms have len: "length N = n" and rows: "\<forall>i<n. length (N ! i) = n"
    by (simp_all add: counts_def square_def)
  have some: "\<forall>x\<in>set (concat N). \<exists>v. x = Some v"
  proof
    fix x assume "x \<in> set (concat N)"
    then obtain r where "r \<in> set N" "x \<in> set r"
      by auto
    then obtain i j where "i < n" "r = N ! i" "j < length r" "x = r ! j"
      using len by (metis in_set_conv_nth)
    with rows have "j < n"
      by simp
    with assms \<open>i < n\<close> obtain v where "N ! i ! j = Some v"
      unfolding counts_def by blast
    with \<open>r = N ! i\<close> \<open>x = r ! j\<close> show "\<exists>v. x = Some v"
      by simp
  qed
  have "sum_list (map the (concat N)) = sum_list (map (\<lambda>r. sum_list (map the r)) N)"
    by (rule sum_list_map_concat)
  also have "\<dots> = (\<Sum>i<n. sum_list (map the (N ! i)))"
    using len by (simp add: sum_list_sum_nth atLeast0LessThan)
  also have "\<dots> = (\<Sum>i<n. \<Sum>j<n. the (N ! i ! j))"
    using rows by (simp add: sum_list_sum_nth atLeast0LessThan)
  also have "\<dots> = k"
    using assms by (simp add: counts_def)
  finally show ?thesis
    using fl_sum_Some [OF some] by simp
qed

text \<open>
  Claim C10, as amended. Each row of the state-probability trajectory is divided by
  its sum before the accumulation. When the output model returns, for every frame,
  \<open>n\<close> finite non-negative probabilities whose total is not zero, \<open>from_data\<close> ends
  without an error, every entry of \<open>Nij\<close> is a finite non-negative number, and the sum of
  all entries of \<open>Nij\<close> is the number of pairs of consecutive frames: the sum over the
  trajectories of \<open>max(length - 1, 0)\<close>. This is \<open>length - 1\<close> for every trajectory that
  is not empty; an empty trajectory contributes no pair, where \<open>length - 1\<close> is \<open>-1\<close>.
\<close>

theorem from_data_counts_total:
  assumes "output_shape n f dtrajs" "output_probabilities f dtrajs"
  shows "\<exists>Nij. from_data_Nij n f dtrajs = Inr Nij \<and> square n Nij \<and>
           (\<forall>i<n. \<forall>j<n. \<exists>v. Nij ! i ! j = Some v \<and> 0 \<le> v) \<and>
           fl_sum (concat Nij) = Some (of_int (\<Sum>o_t\<leftarrow>dtrajs. max 0 (int (length o_t) - 1)))"
proof -
  from accumulate_trajectories_counts [OF counts_zeros assms] obtain Nij where
    Nij: "from_data_Nij n f dtrajs = Inr Nij"
      "counts n Nij (of_int (\<Sum>o_t\<leftarrow>dtrajs. max 0 (int (length o_t) - 1)))"
    by (auto simp add: from_data_Nij_def)
  from counts_total [OF Nij(2)] Nij show ?thesis
    by (auto simp add: counts_def)
qed

theorem from_data_counts_total_witness:
  "output_shape 2 (map (\<lambda>x::real. [Some x, Some 1])) [[1, 3, 1], [], [2]] \<and>
   output_probabilities (map (\<lambda>x::real. [Some x, Some 1])) [[1, 3, 1], [], [2]] \<and>
   from_data_Nij 2 (map (\<lambda>x::real. [Some x, Some 1])) [[1, 3, 1], [], [2]] =
     Inr [[Some (3 / 4), Some (1 / 2)], [Some (1 / 2), Some (1 / 4)]] \<and>
   fl_sum (concat [[Some (3 / 4), Some (1 / 2)], [Some (1 / 2), Some (1 / 4)]]) = Some 2 \<and>
   (\<Sum>o_t\<leftarrow>[[1, 3, 1], [], [2 :: real]]. max 0 (int (length o_t) - 1)) = 2"
proof -
  let ?f = "map (\<lambda>x::real. [Some x, Some 1])"
  let ?D = "[[1, 3, 1], [], [2 :: real]]"
  have shape: "output_shape 2 ?f ?D"
    by (simp add: output_shape_def)
  have probs: "output_probabilities ?f ?D"
    by (simp add: output_probabilities_def fl_sum_def fl_add_def)
  have val: "from_data_Nij 2 ?f ?D = Inr [[Some (3 / 4), Some (1 / 2)], [Some (1 / 2), Some (1 / 4)]]"
    by (simp add: from_data_Nij_def accumulate_trajectory_def normalize_rows_def range_py_def
        zeros_def get_row_def iadd_outer_def fl_sum_def fl_add_def fl_mul_def fl_div_def
        upto.simps upt_conv_Cons)
  have pairs: "(\<Sum>o_t\<leftarrow>?D. max 0 (int (length o_t) - 1)) = 2"
    by simp
  from from_data_counts_total [OF shape probs] val pairs
  have "fl_sum (concat [[Some (3 / 4), Some (1 / 2)], [Some (1 / 2), Some (1 / 4 :: real)]]) = Some 2"
    by simp
  with shape probs val pairs show ?thesis
    by simp
qed

text \<open>
  The claim as first stated gives the total as the sum over the trajectories of
  \<open>length - 1\<close>. With the trajectories \<open>[1, 3]\<close> and \<open>[]\<close> the counts hold the one pair
  of the first trajectory and their total is 1, while \<open>(2 - 1) + (0 - 1) = 0\<close>.
\<close>

theorem from_data_counts_total_counterexample:
  "output_shape 2 (map (\<lambda>x::real. [Some x, Some 1])) [[1, 3], []] \<and>
   output_probabilities (map (\<lambda>x::real. [Some x, Some 1])) [[1, 3], []] \<and>
   from_data_Nij 2 (map (\<lambda>x::real. [Some x, Some 1])) [[1, 3], []] =
     Inr [[Some (3 / 8), Some (1 / 8)], [Some (3 / 8), Some (1 / 8)]] \<and>
   fl_sum (concat [[Some (3 / 8), Some (1 / 8)], [Some (3 / 8), Some (1 / 8)]]) = Some 1 \<and>
   (\<Sum>o_t\<leftarrow>[[1, 3], [] :: real list]. int (length o_t) - 1) = 0 \<and>
   fl_sum (concat [[Some (3 / 8), Some (1 / 8)], [Some (3 / 8), Some (1 / 8)]]) \<noteq>
     Some (of_int (\<Sum>o_t\<leftarrow>[[1, 3], [] :: real list]. int (length o_t) - 1))"
  by (simp add: output_shape_def output_probabilities_def from_data_Nij_def
      accumulate_trajectory_def normalize_rows_def range_py_def zeros_def get_row_def
      iadd_outer_def fl_sum_def fl_add_def fl_mul_def fl_div_def upto.simps upt_conv_Cons)

section \<open>Accumulation over several submissions\<close>

lemma map2_same: "map2 h (map f xs) (map g xs) = map (\<lambda>x. h (f x) (g x)) xs"
  by (induction xs) simp_all

lemma chunk_moments_append:
  "chunk_moments F (xs @ ys) = merge (chunk_moments F xs) (chunk_moments F ys)"
  by (simp add: chunk_moments_def merge_def map2_same)

lemma empty_accumulator_moments: "empty_accumulator F = chunk_moments F []"
  by (simp add: empty_accumulator_def chunk_moments_def map_replicate_const)

lemma partial_fit_all_moments:
  assumes "\<forall>c\<in>set chunks. c \<noteq> []"
  shows "partial_fit_all F (chunk_moments F seen) chunks = Inr (chunk_moments F (seen @ concat chunks))"
  using assms
  by (induction chunks arbitrary: seen) (simp_all add: partial_fit_def chunk_moments_append [symmetric])

lemma partial_fit_empty:
  "c \<noteq> [] \<Longrightarrow> partial_fit F (empty_accumulator F) c = Inr (chunk_moments F c)"
  using chunk_moments_append [of F "[]" c]
  by (simp add: partial_fit_def empty_accumulator_moments)

lemma fetch_statistics_defined:
  "c \<noteq> [] \<Longrightarrow> \<exists>s. fetch_statistics (chunk_moments F c) = Some s"
  by (simp add: fetch_statistics_def chunk_moments_def Let_def)

lemma lag_pairs_nth:
  "0 < lag \<Longrightarrow> lag_pairs lag traj = map (\<lambda>t. (traj ! t, traj ! (t + lag))) [0..<length traj - lag]"
  by (auto simp add: lag_pairs_def list_eq_iff_nth_eq add.commute)

text \<open>
  Claim C1. For every dataset of pairs and every way of cutting it into submissions
  (the chunks of one trajectory, or the pairs of trajectories submitted one by one,
  each trajectory paired with itself only), the accumulator after the submissions is
  the accumulator after one submission of the whole dataset, and so are the
  statistics read from it, which are defined. In exact arithmetic the two are equal,
  hence within every tolerance.
\<close>

theorem accumulation_split_invariant:
  assumes "well_shaped F chunks"
  shows "\<exists>acc s. partial_fit_all F (empty_accumulator F) chunks = Inr acc \<and>
           partial_fit F (empty_accumulator F) (concat chunks) = Inr acc \<and>
           fetch_statistics acc = Some s"
proof -
  from assms have ne: "\<forall>c\<in>set chunks. c \<noteq> []" and "chunks \<noteq> []"
    by (simp_all add: well_shaped_def)
  then have all: "concat chunks \<noteq> []"
    by (cases chunks) auto
  from partial_fit_all_moments [OF ne, of F "[]"]
  have "partial_fit_all F (empty_accumulator F) chunks = Inr (chunk_moments F (concat chunks))"
    by (simp add: empty_accumulator_moments)
  with partial_fit_empty [OF all] fetch_statistics_defined [OF all] show ?thesis
    by auto
qed

theorem accumulation_split_invariant_witness:
  "well_shaped 1 [lag_pairs 1 [[1], [2], [4]], lag_pairs 1 [[3], [5]]] \<and>
   concat [lag_pairs 1 [[1], [2], [4]], lag_pairs 1 [[3], [5]]] = [([1], [2]), ([2], [4]), ([3], [5])] \<and>
   partial_fit_all 1 (empty_accumulator 1) [lag_pairs 1 [[1], [2], [4]], lag_pairs 1 [[3], [5]]] =
     Inr \<lparr>n_pairs = 3, sum_0 = [6], sum_t = [11], moment_00 = [[14]], moment_0t = [[25]]\<rparr> \<and>
   partial_fit 1 (empty_accumulator 1) [([1], [2]), ([2], [4]), ([3], [5])] =
     Inr \<lparr>n_pairs = 3, sum_0 = [6], sum_t = [11], moment_00 = [[14]], moment_0t = [[25]]\<rparr> \<and>
   fetch_statistics \<lparr>n_pairs = 3, sum_0 = [6], sum_t = [11], moment_00 = [[14]], moment_0t = [[25]]\<rparr> =
     Some \<lparr>mean_0 = [2], mean_t = [11 / 3], cov_00 = [[2 / 3]], cov_0t = [[1]]\<rparr>"
proof -
  let ?chunks = "[lag_pairs 1 [[1], [2], [4]], lag_pairs 1 [[3], [5]]]"
  let ?acc = "\<lparr>n_pairs = 3, sum_0 = [6], sum_t = [11], moment_00 = [[14]], moment_0t = [[25 :: real]]\<rparr>"
  have shape: "well_shaped 1 ?chunks"
    by (simp add: well_shaped_def lag_pairs_def)
  have pairs: "concat ?chunks = [([1], [2]), ([2], [4]), ([3], [5])]"
    by (simp add: lag_pairs_def)
  have single: "partial_fit 1 (empty_accumulator 1) [([1], [2]), ([2], [4]), ([3], [5])] = Inr ?acc"
    by (simp add: partial_fit_def empty_accumulator_def merge_def chunk_moments_def)
  from accumulation_split_invariant [OF shape] obtain acc where
    "partial_fit_all 1 (empty_accumulator 1) ?chunks = Inr acc"
    "partial_fit 1 (empty_accumulator 1) (concat ?chunks) = Inr acc"
    by blast
  with pairs single have split: "partial_fit_all 1 (empty_accumulator 1) ?chunks = Inr ?acc"
    by simp
  have "fetch_statistics ?acc =
      Some \<lparr>mean_0 = [2], mean_t = [11 / 3], cov_00 = [[2 / 3]], cov_0t = [[1]]\<rparr>"
    by (simp add: fetch_statistics_def Let_def)
  with shape pairs single split show ?thesis
    by simp
qed

end
